theory Spec2Isabelle
  imports Main "HOL-Library.Word"
begin

unbundle bit_operations_syntax

section \<open>Dell privacy notification driver: data model\<close>

text \<open>
  The driver consists of \<^verbatim>\<open>dell-privacy-wmi.c\<close> (keymap, event relay, validity gate,
  status query, probe and remove) and the ACPI part with the mic-mute LED callback.
  C \<^verbatim>\<open>int\<close> and \<^verbatim>\<open>u32\<close> values whose bit pattern matters (event type, event code,
  status, scancodes) are 32-bit words; error codes returned by the functions are
  small integers and are kept as \<^typ>\<open>int\<close>.

  Memory is an explicit store from addresses to structures. An input device released
  by \<^verbatim>\<open>input_free_device\<close> is marked as freed, and every later access through the
  pointer to it is a use after free: the operation has no result (\<open>None\<close>). The
  functions of the driver never free a \<^verbatim>\<open>privacy_wmi_data\<close> themselves (it is
  device-managed, released by the driver core), so its cells stay allocated here.
  The list mutex is not modelled: every operation runs to completion.
\<close>

type_synonym u8 = "8 word"
type_synonym u16 = "16 word"
type_synonym u32 = "32 word"
type_synonym addr = nat

text \<open>Error numbers of the kernel (\<^verbatim>\<open>errno-base.h\<close>, \<^verbatim>\<open>errno.h\<close>).\<close>

definition EIO :: int where "EIO = 5"
definition ENOMEM :: int where "ENOMEM = 12"
definition ENODEV :: int where "ENODEV = 19"
definition EINVAL :: int where "EINVAL = 22"
definition EPROBE_DEFER :: int where "EPROBE_DEFER = 517"

text \<open>The anonymous enum of \<^verbatim>\<open>dell-privacy-wmi.h\<close>.\<close>

definition DELL_PRIVACY_TYPE_UNKNOWN :: u32 where "DELL_PRIVACY_TYPE_UNKNOWN = 0"
definition DELL_PRIVACY_TYPE_AUDIO :: u32 where "DELL_PRIVACY_TYPE_AUDIO = 1"
definition DELL_PRIVACY_TYPE_CAMERA :: u32 where "DELL_PRIVACY_TYPE_CAMERA = 2"

text \<open>
  \<^verbatim>\<open>struct key_entry\<close> of the sparse keymap library: the entry type (\<^verbatim>\<open>KE_END\<close> is 0,
  so a zeroed entry is an end marker), the scancode, and the union holding the key
  code or the switch code.
\<close>

datatype ke_type = KE_END | KE_KEY | KE_SW | KE_VSW | KE_IGNORE

record key_entry =
  ke_type :: ke_type
  ke_code :: u32
  keycode :: u16

definition KEY_MICMUTE :: u16 where "KEY_MICMUTE = 248"
definition SW_CAMERA_LENS_COVER :: u16 where "SW_CAMERA_LENS_COVER = 9"
definition BUS_HOST :: nat where "BUS_HOST = 25"

definition zero_key_entry :: key_entry where
  "zero_key_entry = \<lparr>ke_type = KE_END, ke_code = 0, keycode = 0\<rparr>"

definition dell_wmi_keymap_type_0012 :: "key_entry list" where
  "dell_wmi_keymap_type_0012 =
     [\<lparr>ke_type = KE_KEY, ke_code = 0x0001, keycode = KEY_MICMUTE\<rparr>,
      \<lparr>ke_type = KE_SW, ke_code = 0x0002, keycode = SW_CAMERA_LENS_COVER\<rparr>,
      \<lparr>ke_type = KE_END, ke_code = 0, keycode = 0\<rparr>]"

text \<open>The part of \<^verbatim>\<open>struct input_dev\<close> the driver sets or reads, whether the device
  is registered with the input core, and whether its memory has been released.\<close>

record input_device =
  keycode_map :: "key_entry list"
  dev_name :: string
  bustype :: nat
  registered :: bool
  freed :: bool

definition zero_input_device :: input_device where
  "zero_input_device =
     \<lparr>keycode_map = [], dev_name = [], bustype = 0, registered = False, freed = False\<rparr>"

text \<open>
  \<^verbatim>\<open>struct privacy_wmi_data\<close>. The pointer fields are options (\<open>None\<close> is \<^verbatim>\<open>NULL\<close>);
  the input device is owned by exactly one instance and is therefore stored in place.
  The \<^verbatim>\<open>list\<close> member is the position of the instance's address in \<open>wmi_list\<close> below.
\<close>

record privacy_wmi_data =
  input_dev :: "input_device option"
  wdev :: "nat option"
  features_present :: u32
  last_status :: u32

definition zero_priv :: privacy_wmi_data where
  "zero_priv = \<lparr>input_dev = None, wdev = None, features_present = 0, last_status = 0\<rparr>"

text \<open>
  The global state: \<^verbatim>\<open>privacy_valid\<close>, \<^verbatim>\<open>wmi_list\<close> (addresses in list order), the store
  of instances, the driver data pointer of every WMI device, the next address the
  allocator hands out, and whether the firmware exposes the privacy GUID
  (what \<^verbatim>\<open>wmi_has_guid\<close> reads).
\<close>

record driver_state =
  privacy_valid :: int
  wmi_list :: "addr list"
  privs :: "addr \<Rightarrow> privacy_wmi_data"
  drvdata :: "nat \<Rightarrow> addr option"
  next_addr :: addr
  wmi_guid_present :: bool

definition init_state :: "bool \<Rightarrow> driver_state" where
  "init_state g =
     \<lparr>privacy_valid = - EPROBE_DEFER, wmi_list = [], privs = (\<lambda>_. zero_priv),
      drvdata = (\<lambda>_. None), next_addr = 0, wmi_guid_present = g\<rparr>"

section \<open>Sparse keymap helpers\<close>

text \<open>
  Modelled from the spec: \<^verbatim>\<open>sparse_keymap_setup\<close> and
  \<^verbatim>\<open>sparse_keymap_entry_from_scancode\<close> belong to the kernel's input library and are
  not among the driver's files. The keymap table is "built once" and looked up by
  composite scancode; the library keeps the entries up to and including the first
  end marker and compares scancodes for equality, stopping at the end marker.
\<close>

fun keymap_upto_end :: "key_entry list \<Rightarrow> key_entry list" where
  "keymap_upto_end [] = []"
| "keymap_upto_end (k # ks) =
     (if ke_type k = KE_END then [k] else k # keymap_upto_end ks)"

fun sparse_keymap_entry_from_scancode :: "key_entry list \<Rightarrow> u32 \<Rightarrow> key_entry option" where
  "sparse_keymap_entry_from_scancode [] c = None"
| "sparse_keymap_entry_from_scancode (k # ks) c =
     (if ke_type k = KE_END then None
      else if c = ke_code k then Some k
      else sparse_keymap_entry_from_scancode ks c)"

text \<open>
  The remapping loop of the probe function: a zeroed array of
  \<^verbatim>\<open>ARRAY_SIZE(dell_wmi_keymap_type_0012) + 1\<close> entries, filled entry by entry with the
  table's entries, each scancode prefixed with \<^verbatim>\<open>0x0012 << 16\<close>.
\<close>

definition remap_keymap :: "key_entry list" where
  "remap_keymap =
     fold (\<lambda>i keymap. keymap[i := (dell_wmi_keymap_type_0012 ! i)
                \<lparr>ke_code := ke_code (dell_wmi_keymap_type_0012 ! i) OR push_bit 16 0x0012\<rparr>])
          [0 ..< length dell_wmi_keymap_type_0012]
          (replicate (length dell_wmi_keymap_type_0012 + 1) zero_key_entry)"

section \<open>Validity gate\<close>

text \<open>
  \<^verbatim>\<open>dell_privacy_valid\<close>: \<^verbatim>\<open>-ENODEV\<close> without the GUID, the cached flag otherwise. The
  state is returned along with the result so that the absence of writes is a fact
  about the function and not about its type.
\<close>

definition dell_privacy_valid :: "driver_state \<Rightarrow> int \<times> driver_state" where
  "dell_privacy_valid s =
     (if \<not> wmi_guid_present s then (- ENODEV, s)
      else (privacy_valid s, s))"

fun query_n :: "nat \<Rightarrow> driver_state \<Rightarrow> int list \<times> driver_state" where
  "query_n 0 s = ([], s)"
| "query_n (Suc n) s =
     (let (r, s') = dell_privacy_valid s; (rs, s'') = query_n n s' in (r # rs, s''))"

section \<open>Event relay\<close>

text \<open>An input action is one call of \<^verbatim>\<open>sparse_keymap_report_entry\<close>:
  the instance whose input device is used, the entry, the value and the autorelease flag.\<close>

datatype input_action = Report_entry addr key_entry nat bool

text \<open>
  \<^verbatim>\<open>dell_privacy_process_event\<close>. Its three \<^verbatim>\<open>int\<close> arguments are 32-bit words; the
  scancode \<^verbatim>\<open>(type << 16) | code\<close> keeps the low 32 bits, as the conversion to the
  \<^verbatim>\<open>unsigned int\<close> parameter of the lookup does. The result is \<open>None\<close> where the C code
  would dereference a null \<^verbatim>\<open>input_dev\<close> pointer or one whose device has been freed
  (the keymap lookup and the report both go through \<^verbatim>\<open>priv->input_dev\<close>); otherwise the
  new state and the input actions emitted, in order.
\<close>

definition dell_privacy_process_event ::
  "u32 \<Rightarrow> u32 \<Rightarrow> u32 \<Rightarrow> driver_state \<Rightarrow> (driver_state \<times> input_action list) option" where
  "dell_privacy_process_event ty cd status s =
     (case wmi_list s of
        [] \<Rightarrow> Some (s, [])
      | p # _ \<Rightarrow>
          (case input_dev (privs s p) of
             None \<Rightarrow> None
           | Some idev \<Rightarrow>
               if freed idev then None
               else
                 (case sparse_keymap_entry_from_scancode (keycode_map idev) (push_bit 16 ty OR cd) of
                    None \<Rightarrow> Some (s, [])
                  | Some key \<Rightarrow>
                      if cd = DELL_PRIVACY_TYPE_AUDIO then
                        Some (s\<lparr>privs := (privs s)(p := (privs s p)\<lparr>last_status := status\<rparr>)\<rparr>,
                              [Report_entry p key 1 True])
                      else if cd = DELL_PRIVACY_TYPE_CAMERA then
                        Some (s\<lparr>privs := (privs s)(p := (privs s p)\<lparr>last_status := status\<rparr>)\<rparr>,
                              [Report_entry p key 1 True])
                      else Some (s, []))))"

section \<open>Status attributes\<close>

text \<open>
  Modelled from the spec: \<^verbatim>\<open>sysfs_emit\<close> with the format \<^verbatim>\<open>"%x\n"\<close> is kernel library
  code outside the driver's files; the attributes expose the values "as hexadecimal
  text": lower-case digits, most significant first, no leading zeros, then a newline.
  The result is the number of characters written and the text.
\<close>

definition hex_asc :: "nat \<Rightarrow> char" where
  "hex_asc d = ''0123456789abcdef'' ! d"

fun hex_digits :: "nat \<Rightarrow> string" where
  "hex_digits n = (if n < 16 then [hex_asc n] else hex_digits (n div 16) @ [hex_asc (n mod 16)])"

declare hex_digits.simps [simp del]

definition sysfs_emit_x :: "u32 \<Rightarrow> int \<times> string" where
  "sysfs_emit_x v = (let txt = hex_digits (unat v) @ [CHR 0x0A] in (int (length txt), txt))"

definition devices_supported_show :: "nat \<Rightarrow> driver_state \<Rightarrow> (int \<times> string) option" where
  "devices_supported_show dev s =
     (case drvdata s dev of
        None \<Rightarrow> None
      | Some p \<Rightarrow> Some (sysfs_emit_x (features_present (privs s p))))"

definition current_state_show :: "nat \<Rightarrow> driver_state \<Rightarrow> (int \<times> string) option" where
  "current_state_show dev s =
     (case drvdata s dev of
        None \<Rightarrow> None
      | Some p \<Rightarrow> Some (sysfs_emit_x (last_status (privs s p))))"

text \<open>Reading hexadecimal text back, used to state that the rendering loses nothing.\<close>

definition hex_val :: "char \<Rightarrow> nat" where
  "hex_val c = (if c \<in> set ''0123456789'' then of_char c - 48 else of_char c - 87)"

definition hex_parse :: "string \<Rightarrow> nat" where
  "hex_parse cs = foldl (\<lambda>acc c. 16 * acc + hex_val c) 0 cs"

section \<open>Status query\<close>

text \<open>
  \<^verbatim>\<open>union acpi_object\<close> by its type tag. A buffer is its bytes; \<^verbatim>\<open>buffer.length\<close> is
  their number.
\<close>

datatype acpi_object =
    Acpi_Integer "64 word"
  | Acpi_String string
  | Acpi_Buffer "u8 list"
  | Acpi_Package "acpi_object list"

text \<open>Reading element \<open>i\<close> of the buffer through a \<^verbatim>\<open>u32 *\<close> (x86, little endian).\<close>

definition buffer_u32 :: "u8 list \<Rightarrow> nat \<Rightarrow> u32" where
  "buffer_u32 bs i =
     ucast (bs ! (4 * i)) OR push_bit 8 (ucast (bs ! (4 * i + 1)))
       OR push_bit 16 (ucast (bs ! (4 * i + 2))) OR push_bit 24 (ucast (bs ! (4 * i + 3)))"

text \<open>The four bytes of a \<^verbatim>\<open>u32\<close> in memory order.\<close>

definition u32_bytes :: "u32 \<Rightarrow> u8 list" where
  "u32_bytes x = [ucast x, ucast (drop_bit 8 x), ucast (drop_bit 16 x), ucast (drop_bit 24 x)]"

text \<open>
  \<^verbatim>\<open>get_current_status\<close>; the first argument is what \<^verbatim>\<open>wmidev_block_query(wdev, 0)\<close>
  returns (\<open>None\<close> for a null pointer).
\<close>

definition get_current_status ::
  "acpi_object option \<Rightarrow> nat \<Rightarrow> driver_state \<Rightarrow> int \<times> driver_state" where
  "get_current_status obj_present wd s =
     (case drvdata s wd of
        None \<Rightarrow> (- EINVAL, s)
      | Some p \<Rightarrow>
          (case obj_present of
             None \<Rightarrow> (- EIO, s\<lparr>privacy_valid := - EIO\<rparr>)
           | Some (Acpi_Buffer bs) \<Rightarrow>
               if length bs \<noteq> 8 then (- EINVAL, s\<lparr>privacy_valid := - EINVAL\<rparr>)
               else (0, s\<lparr>privs := (privs s)(p := (privs s p)
                              \<lparr>features_present := buffer_u32 bs 0, last_status := buffer_u32 bs 1\<rparr>),
                          privacy_valid := 0\<rparr>)
           | Some _ \<Rightarrow> (- EIO, s\<lparr>privacy_valid := - EIO\<rparr>)))"

section \<open>Mic-mute LED callback\<close>

text \<open>
  The ACPI environment of \<^verbatim>\<open>dell_privacy_micmute_led_set\<close>: the embedded controller's
  handle (\<^verbatim>\<open>ec_get_handle\<close>), which methods a handle has (\<^verbatim>\<open>acpi_has_method\<close>) and the
  status an evaluation returns (\<^verbatim>\<open>acpi_evaluate_object\<close>; \<^verbatim>\<open>ACPI_FAILURE\<close> is "nonzero").
  The result is the return value and the method evaluations issued.
\<close>

record acpi_env =
  ec_get_handle :: "nat option"
  acpi_has_method :: "nat \<Rightarrow> string \<Rightarrow> bool"
  acpi_evaluate_object :: "nat \<Rightarrow> string \<Rightarrow> u32"

datatype acpi_call = Evaluate nat string

definition dell_privacy_micmute_led_set :: "acpi_env \<Rightarrow> nat \<Rightarrow> int \<times> acpi_call list" where
  "dell_privacy_micmute_led_set env brightness =
     (let acpi_method = ''ECAK'' in
      case ec_get_handle env of
        None \<Rightarrow> (- EIO, [])
      | Some handle \<Rightarrow>
          if \<not> acpi_has_method env handle acpi_method then (- EIO, [])
          else if acpi_evaluate_object env handle acpi_method \<noteq> 0
            then (- EIO, [Evaluate handle acpi_method])
          else (0, [Evaluate handle acpi_method]))"

section \<open>Probe and remove\<close>

text \<open>
  What the kernel services called by \<^verbatim>\<open>dell_privacy_wmi_probe\<close> answer: whether the
  three allocations succeed, the return values of \<^verbatim>\<open>sparse_keymap_setup\<close>,
  \<^verbatim>\<open>input_register_device\<close> and \<^verbatim>\<open>devm_device_add_group\<close> (0 is success), and the
  object \<^verbatim>\<open>wmidev_block_query\<close> returns.
\<close>

record probe_env =
  devm_kzalloc_ok :: bool
  devm_input_allocate_device_ok :: bool
  kcalloc_ok :: bool
  sparse_keymap_setup_ret :: int
  input_register_device_ret :: int
  wmidev_block_query :: "acpi_object option"
  devm_device_add_group_ret :: int

definition set_input_dev :: "addr \<Rightarrow> input_device \<Rightarrow> driver_state \<Rightarrow> driver_state" where
  "set_input_dev p idev s = s\<lparr>privs := (privs s)(p := (privs s p)\<lparr>input_dev := Some idev\<rparr>)\<rparr>"

text \<open>\<^verbatim>\<open>input_unregister_device(priv->input_dev)\<close> for the instance at \<open>p\<close>.\<close>

definition input_unregister_device :: "addr \<Rightarrow> driver_state \<Rightarrow> driver_state" where
  "input_unregister_device p s =
     (case input_dev (privs s p) of
        None \<Rightarrow> s
      | Some idev \<Rightarrow> set_input_dev p (idev\<lparr>registered := False\<rparr>) s)"

text \<open>\<^verbatim>\<open>input_free_device(priv->input_dev)\<close> for the instance at \<open>p\<close>: a null pointer
  is ignored, a device is released. The pointer in the instance is left as it is.\<close>

definition input_free_device :: "addr \<Rightarrow> driver_state \<Rightarrow> driver_state" where
  "input_free_device p s =
     (case input_dev (privs s p) of
        None \<Rightarrow> s
      | Some idev \<Rightarrow> set_input_dev p (idev\<lparr>freed := True\<rparr>) s)"

text \<open>
  \<^verbatim>\<open>dell_privacy_wmi_probe\<close> for the WMI device \<open>wd\<close>. The local \<^verbatim>\<open>ret\<close> holds the
  result of \<^verbatim>\<open>sparse_keymap_setup\<close> (0) when \<^verbatim>\<open>input_register_device\<close> or
  \<^verbatim>\<open>get_current_status\<close> fails, and that is what the error path returns; the error
  path has no \<^verbatim>\<open>list_del\<close>. The labels \<^verbatim>\<open>err_free_input\<close>, \<^verbatim>\<open>err_free_keymap\<close> and
  \<^verbatim>\<open>err_free_dev\<close> fall through to \<^verbatim>\<open>input_free_device\<close>.
\<close>

definition dell_privacy_wmi_probe :: "probe_env \<Rightarrow> nat \<Rightarrow> driver_state \<Rightarrow> int \<times> driver_state" where
  "dell_privacy_wmi_probe env wd s =
     (if \<not> devm_kzalloc_ok env then (- ENOMEM, s)
      else
        let p = next_addr s;
            s1 = s\<lparr>privs := (privs s)(p := zero_priv\<lparr>wdev := Some wd\<rparr>),
                   drvdata := (drvdata s)(wd := Some p),
                   next_addr := Suc p\<rparr>
        in
        if \<not> devm_input_allocate_device_ok env then (- ENOMEM, s1)
        else
          let s2 = set_input_dev p zero_input_device s1 in
          if \<not> kcalloc_ok env then (- ENOMEM, input_free_device p s2)
          else
            let keymap = remap_keymap;
                ret = sparse_keymap_setup_ret env
            in
            if ret \<noteq> 0 then (ret, s2)
            else
              let idev = zero_input_device
                           \<lparr>keycode_map := keymap_upto_end keymap,
                            dev_name := ''Dell Privacy Driver'',
                            bustype := BUS_HOST\<rparr>;
                  s3 = set_input_dev p idev s2
              in
              if input_register_device_ret env \<noteq> 0
              then (ret, input_free_device p (s3\<lparr>privacy_valid := - ENODEV\<rparr>))
              else
                let s4 = (set_input_dev p (idev\<lparr>registered := True\<rparr>) s3)
                           \<lparr>wmi_list := wmi_list s3 @ [p]\<rparr>;
                    (st, s5) = get_current_status (wmidev_block_query env) wd s4
                in
                if st \<noteq> 0
                then (ret, input_free_device p
                             ((input_unregister_device p s5)\<lparr>privacy_valid := - ENODEV\<rparr>))
                else
                  let ret' = devm_device_add_group_ret env in
                  if ret' \<noteq> 0
                  then (ret', input_free_device p
                                ((input_unregister_device p s5)\<lparr>privacy_valid := - ENODEV\<rparr>))
                  else (0, s5))"

text \<open>
  \<^verbatim>\<open>dell_privacy_wmi_remove\<close>. \<open>None\<close> stands for a null pointer dereference (no
  driver data, \<^verbatim>\<open>list_del\<close> on an instance whose zeroed \<^verbatim>\<open>list\<close> member was never
  linked, a null \<^verbatim>\<open>input_dev\<close>) or for \<^verbatim>\<open>input_unregister_device\<close> on a device that
  has been freed.
\<close>

definition dell_privacy_wmi_remove :: "nat \<Rightarrow> driver_state \<Rightarrow> (int \<times> driver_state) option" where
  "dell_privacy_wmi_remove wd s =
     (case drvdata s wd of
        None \<Rightarrow> None
      | Some p \<Rightarrow>
          if p \<notin> set (wmi_list s) then None
          else
            (case input_dev (privs s p) of
               None \<Rightarrow> None
             | Some idev \<Rightarrow>
                 if freed idev then None
                 else
                   Some (0, input_unregister_device p
                              (s\<lparr>wmi_list := remove1 p (wmi_list s), privacy_valid := - ENODEV\<rparr>))))"

text \<open>Every step of registration succeeds: the only way through the probe function
  that reaches its \<^verbatim>\<open>return 0\<close> after \<^verbatim>\<open>kfree(keymap)\<close>.\<close>

definition probe_all_ok :: "probe_env \<Rightarrow> bool" where
  "probe_all_ok env \<longleftrightarrow>
     devm_kzalloc_ok env \<and> devm_input_allocate_device_ok env \<and> kcalloc_ok env \<and>
     sparse_keymap_setup_ret env = 0 \<and> input_register_device_ret env = 0 \<and>
     (case wmidev_block_query env of Some (Acpi_Buffer bs) \<Rightarrow> length bs = 8 | _ \<Rightarrow> False) \<and>
     devm_device_add_group_ret env = 0"

text \<open>The steps before the input device is registered: a failure among them returns
  before any label that writes \<^verbatim>\<open>privacy_valid\<close>.\<close>

definition probe_early_ok :: "probe_env \<Rightarrow> bool" where
  "probe_early_ok env \<longleftrightarrow>
     devm_kzalloc_ok env \<and> devm_input_allocate_device_ok env \<and> kcalloc_ok env \<and>
     sparse_keymap_setup_ret env = 0"

section \<open>Reachable states\<close>

text \<open>
  The states the driver can be in: the initial one, and any state after a probe, a
  remove, an event or a validity query that returned.
\<close>

inductive reachable :: "driver_state \<Rightarrow> bool" where
  reach_init: "reachable (init_state g)"
| reach_probe: "reachable s \<Longrightarrow> dell_privacy_wmi_probe env wd s = (r, s') \<Longrightarrow> reachable s'"
| reach_remove: "reachable s \<Longrightarrow> dell_privacy_wmi_remove wd s = Some (r, s') \<Longrightarrow> reachable s'"
| reach_event: "reachable s \<Longrightarrow> dell_privacy_process_event ty cd status s = Some (s', acts)
                  \<Longrightarrow> reachable s'"
| reach_query: "reachable s \<Longrightarrow> dell_privacy_valid s = (r, s') \<Longrightarrow> reachable s'"

text \<open>The keymap \<^verbatim>\<open>sparse_keymap_setup\<close> installs on the input device of an instance.\<close>

definition installed_keymap :: "key_entry list" where
  "installed_keymap = keymap_upto_end remap_keymap"

text \<open>An input device that got the installed keymap and, if it is still registered,
  has not been freed.\<close>

definition dev_ok :: "input_device \<Rightarrow> bool" where
  "dev_ok idev \<longleftrightarrow> keycode_map idev = installed_keymap \<and> (registered idev \<longrightarrow> \<not> freed idev)"

text \<open>Every listed instance was allocated by a probe and points to such a device.\<close>

definition list_inv :: "driver_state \<Rightarrow> bool" where
  "list_inv s \<longleftrightarrow>
     (\<forall>p \<in> set (wmi_list s). p < next_addr s \<and>
        (\<exists>idev. input_dev (privs s p) = Some idev \<and> dev_ok idev))"

text \<open>The concrete environment of a probe whose every step succeeds, answering the
  status query with the eight bytes of the two given values.\<close>

definition good_env :: "u32 \<Rightarrow> u32 \<Rightarrow> probe_env" where
  "good_env f st =
     \<lparr>devm_kzalloc_ok = True, devm_input_allocate_device_ok = True, kcalloc_ok = True,
      sparse_keymap_setup_ret = 0, input_register_device_ret = 0,
      wmidev_block_query = Some (Acpi_Buffer (u32_bytes f @ u32_bytes st)),
      devm_device_add_group_ret = 0\<rparr>"

text \<open>The same environment with an unreachable firmware interface:
  \<^verbatim>\<open>wmidev_block_query\<close> returns a null pointer.\<close>

definition query_fail_env :: probe_env where
  "query_fail_env = (good_env 0 0)\<lparr>wmidev_block_query := None\<rparr>"

text \<open>\<^verbatim>\<open>obj->type == ACPI_TYPE_BUFFER\<close>.\<close>

definition is_acpi_buffer :: "acpi_object \<Rightarrow> bool" where
  "is_acpi_buffer obj = (case obj of Acpi_Buffer _ \<Rightarrow> True | _ \<Rightarrow> False)"


text \<open>An embedded controller whose handle exists, exposes every method and
  evaluates it with \<^verbatim>\<open>AE_OK\<close>.\<close>

definition ec_ok_env :: acpi_env where
  "ec_ok_env = \<lparr>ec_get_handle = Some 0, acpi_has_method = (\<lambda>_ _. True),
                acpi_evaluate_object = (\<lambda>_ _. 0)\<rparr>"

text \<open>The state after one successful probe of device 0 on a fresh driver, the
  firmware reporting features 3 (microphone and camera) and status 1.\<close>

definition probed_state :: driver_state where
  "probed_state = snd (dell_privacy_wmi_probe (good_env 3 1) 0 (init_state True))"

text \<open>That state after the device is removed again.\<close>

definition removed_state :: driver_state where
  "removed_state = snd (the (dell_privacy_wmi_remove 0 probed_state))"

section \<open>Facts about the keymap, the buffer layout and the hexadecimal text\<close>

lemma remap_keymap_eq:
  "remap_keymap =
     [\<lparr>ke_type = KE_KEY, ke_code = 0x120001, keycode = KEY_MICMUTE\<rparr>,
      \<lparr>ke_type = KE_SW, ke_code = 0x120002, keycode = SW_CAMERA_LENS_COVER\<rparr>,
      \<lparr>ke_type = KE_END, ke_code = 0x120000, keycode = 0\<rparr>,
      zero_key_entry]"
  by (simp add: remap_keymap_def dell_wmi_keymap_type_0012_def upt_rec numeral_eq_Suc)

lemma installed_keymap_eq:
  "installed_keymap =
     [\<lparr>ke_type = KE_KEY, ke_code = 0x120001, keycode = KEY_MICMUTE\<rparr>,
      \<lparr>ke_type = KE_SW, ke_code = 0x120002, keycode = SW_CAMERA_LENS_COVER\<rparr>,
      \<lparr>ke_type = KE_END, ke_code = 0x120000, keycode = 0\<rparr>]"
  by (simp add: installed_keymap_def remap_keymap_eq)

lemma lookup_installed:
  "sparse_keymap_entry_from_scancode installed_keymap c =
     (if c = 0x120001 then Some \<lparr>ke_type = KE_KEY, ke_code = 0x120001, keycode = KEY_MICMUTE\<rparr>
      else if c = 0x120002
        then Some \<lparr>ke_type = KE_SW, ke_code = 0x120002, keycode = SW_CAMERA_LENS_COVER\<rparr>
      else None)"
  by (simp add: installed_keymap_eq)


lemma buffer_u32_0: "buffer_u32 (u32_bytes f @ u32_bytes st) 0 = f"
  unfolding buffer_u32_def u32_bytes_def
  apply simp
  apply (rule bit_word_eqI)
  apply (auto simp: bit_simps)
  subgoal for n by (cases "24 \<le> n") simp_all
  done

lemma buffer_u32_1: "buffer_u32 (u32_bytes f @ u32_bytes st) 1 = st"
  unfolding buffer_u32_def u32_bytes_def
  apply simp
  apply (rule bit_word_eqI)
  apply (auto simp: bit_simps)
  subgoal for n by (cases "24 \<le> n") simp_all
  done

lemma hex_asc_val: "d < 16 \<Longrightarrow> hex_val (hex_asc d) = d"
proof -
  assume "d < 16"
  then have "d \<in> set [0..<16]" by simp
  then show ?thesis
    by (simp add: upt_rec hex_val_def hex_asc_def numeral_eq_Suc del: upt_Suc) (elim disjE; simp)
qed

lemma hex_parse_snoc: "hex_parse (cs @ [c]) = 16 * hex_parse cs + hex_val c"
  by (simp add: hex_parse_def)

lemma hex_parse_digits: "hex_parse (hex_digits n) = n"
proof (induction n rule: hex_digits.induct)
  case (1 n)
  show ?case
  proof (cases "n < 16")
    case True
    then show ?thesis by (simp add: hex_digits.simps [of n] hex_parse_def hex_asc_val)
  next
    case False
    with 1 show ?thesis
      by (simp add: hex_digits.simps [of n] hex_parse_snoc hex_asc_val)
  qed
qed

lemma length_u32_bytes: "length (u32_bytes x) = 4"
  by (simp add: u32_bytes_def)

lemma buffer_u32_Suc0: "buffer_u32 (u32_bytes f @ u32_bytes st) (Suc 0) = st"
  using buffer_u32_1 [of f st] by simp

lemma buffer_bytes_roundtrip:
  "length bs = 8 \<Longrightarrow> u32_bytes (buffer_u32 bs 0) @ u32_bytes (buffer_u32 bs 1) = bs"
proof -
  assume "length bs = 8"
  then obtain b0 b1 b2 b3 b4 b5 b6 b7 where bs: "bs = [b0, b1, b2, b3, b4, b5, b6, b7]"
    by (auto simp: length_Suc_conv numeral_eq_Suc)
  show ?thesis
    unfolding bs u32_bytes_def buffer_u32_def
    by simp (intro conjI; rule bit_word_eqI; auto simp: bit_simps dest: bit_imp_le_length)
qed

text \<open>The composite scancode \<^verbatim>\<open>(type << 16) | code\<close> on 32-bit values.\<close>

lemma scancode_drop:
  fixes ty cd :: u32
  shows "drop_bit 16 (push_bit 16 ty OR cd) = take_bit 16 ty OR drop_bit 16 cd"
  by (rule bit_word_eqI) (auto simp: bit_simps)

lemma scancode_audio:
  fixes ty :: u32
  shows "push_bit 16 ty OR 1 = 0x120001 \<longleftrightarrow> take_bit 16 ty = 0x12"
proof
  assume "push_bit 16 ty OR 1 = (0x120001 :: u32)"
  then have "drop_bit 16 (push_bit 16 ty OR 1) = drop_bit 16 (0x120001 :: u32)" by simp
  moreover have "drop_bit 16 (push_bit 16 ty OR 1) = take_bit 16 ty"
    by (subst scancode_drop) (simp add: drop_bit_eq_div)
  moreover have "drop_bit 16 (0x120001 :: u32) = 0x12"
    by (simp add: drop_bit_eq_div)
  ultimately show "take_bit 16 ty = 0x12" by simp
next
  assume a: "take_bit 16 ty = 0x12"
  have "push_bit 16 ty = push_bit 16 (take_bit 16 ty)"
    by (rule bit_word_eqI) (auto simp: bit_simps)
  then show "push_bit 16 ty OR 1 = 0x120001"
    by (simp add: a)
qed

lemma scancode_camera:
  fixes ty :: u32
  shows "push_bit 16 ty OR 2 = 0x120002 \<longleftrightarrow> take_bit 16 ty = 0x12"
proof
  assume "push_bit 16 ty OR 2 = (0x120002 :: u32)"
  then have "drop_bit 16 (push_bit 16 ty OR 2) = drop_bit 16 (0x120002 :: u32)" by simp
  moreover have "drop_bit 16 (push_bit 16 ty OR 2) = take_bit 16 ty"
    by (subst scancode_drop) (simp add: drop_bit_eq_div)
  moreover have "drop_bit 16 (0x120002 :: u32) = 0x12"
    by (simp add: drop_bit_eq_div)
  ultimately show "take_bit 16 ty = 0x12" by simp
next
  assume a: "take_bit 16 ty = 0x12"
  have "push_bit 16 ty = push_bit 16 (take_bit 16 ty)"
    by (rule bit_word_eqI) (auto simp: bit_simps)
  then show "push_bit 16 ty OR 2 = 0x120002"
    by (simp add: a)
qed


lemma scancode_low:
  fixes ty cd :: u32
  shows "take_bit 16 (push_bit 16 ty OR cd) = take_bit 16 cd"
  by (rule bit_word_eqI) (auto simp: bit_simps)

lemma scancode_cross:
  fixes ty :: u32
  shows "push_bit 16 ty OR 1 \<noteq> 0x120002" "push_bit 16 ty OR 2 \<noteq> 0x120001"
proof -
  have "take_bit 16 (push_bit 16 ty OR 1) \<noteq> take_bit 16 (0x120002 :: u32)"
    by (subst scancode_low) (simp add: take_bit_eq_mod)
  then show "push_bit 16 ty OR 1 \<noteq> 0x120002" by metis
  have "take_bit 16 (push_bit 16 ty OR 2) \<noteq> take_bit 16 (0x120001 :: u32)"
    by (subst scancode_low) (simp add: take_bit_eq_mod)
  then show "push_bit 16 ty OR 2 \<noteq> 0x120001" by metis
qed

section \<open>A successful probe, evaluated\<close>

lemma probe_good_env:
  "dell_privacy_wmi_probe (good_env f st) wd s =
     (0, s\<lparr>privs := (privs s)(next_addr s :=
              \<lparr>input_dev = Some \<lparr>keycode_map = installed_keymap, dev_name = ''Dell Privacy Driver'',
                                 bustype = BUS_HOST, registered = True, freed = False\<rparr>,
               wdev = Some wd, features_present = f, last_status = st\<rparr>),
            drvdata := (drvdata s)(wd := Some (next_addr s)),
            next_addr := Suc (next_addr s),
            wmi_list := wmi_list s @ [next_addr s],
            privacy_valid := 0\<rparr>)"
  by (simp add: dell_privacy_wmi_probe_def good_env_def Let_def set_input_dev_def
      get_current_status_def length_u32_bytes buffer_u32_0 buffer_u32_Suc0
      zero_priv_def zero_input_device_def installed_keymap_def)

lemma probed_state_eq:
  "probed_state =
     \<lparr>privacy_valid = 0, wmi_list = [0],
      privs = (\<lambda>_. zero_priv)(0 :=
              \<lparr>input_dev = Some \<lparr>keycode_map = installed_keymap, dev_name = ''Dell Privacy Driver'',
                                 bustype = BUS_HOST, registered = True, freed = False\<rparr>,
               wdev = Some 0, features_present = 3, last_status = 1\<rparr>),
      drvdata = (\<lambda>_. None)(0 := Some 0), next_addr = 1, wmi_guid_present = True\<rparr>"
  by (simp add: probed_state_def probe_good_env init_state_def)

lemma reachable_probed_state: "reachable probed_state"
  unfolding probed_state_def
  by (rule reach_probe [OF reach_init surjective_pairing])

lemma remove_probed_state:
  "dell_privacy_wmi_remove 0 probed_state =
     Some (0, probed_state\<lparr>wmi_list := [], privacy_valid := - ENODEV,
        privs := (privs probed_state)(0 := (privs probed_state 0)
          \<lparr>input_dev := Some \<lparr>keycode_map = installed_keymap, dev_name = ''Dell Privacy Driver'',
                                 bustype = BUS_HOST, registered = False, freed = False\<rparr>\<rparr>)\<rparr>)"
  by (simp add: dell_privacy_wmi_remove_def probed_state_eq input_unregister_device_def input_free_device_def
      set_input_dev_def)

lemma reachable_removed_state: "reachable removed_state"
proof -
  have "dell_privacy_wmi_remove 0 probed_state = Some (0, removed_state)"
    by (simp add: removed_state_def remove_probed_state)
  with reachable_probed_state show ?thesis by (rule reach_remove)
qed

section \<open>Invariants of the reachable states\<close>

lemma probe_effect:
  "(wmi_list (snd (dell_privacy_wmi_probe env wd s)) = wmi_list s \<or>
    wmi_list (snd (dell_privacy_wmi_probe env wd s)) = wmi_list s @ [next_addr s] \<and>
    next_addr (snd (dell_privacy_wmi_probe env wd s)) = Suc (next_addr s) \<and>
    (\<exists>idev. input_dev (privs (snd (dell_privacy_wmi_probe env wd s)) (next_addr s)) = Some idev \<and>
            dev_ok idev)) \<and>
   next_addr s \<le> next_addr (snd (dell_privacy_wmi_probe env wd s)) \<and>
   (\<forall>q. q \<noteq> next_addr s \<longrightarrow> privs (snd (dell_privacy_wmi_probe env wd s)) q = privs s q)"
  by (simp add: dell_privacy_wmi_probe_def Let_def get_current_status_def set_input_dev_def
      input_unregister_device_def input_free_device_def installed_keymap_def dev_ok_def
      zero_input_device_def
      split: option.splits acpi_object.splits)

lemma probe_list_inv:
  assumes "list_inv s"
  shows "list_inv (snd (dell_privacy_wmi_probe env wd s))"
proof -
  let ?s' = "snd (dell_privacy_wmi_probe env wd s)"
  note eff = probe_effect [of env wd s]
  show ?thesis
    unfolding list_inv_def
  proof
    fix q assume q: "q \<in> set (wmi_list ?s')"
    show "q < next_addr ?s' \<and> (\<exists>idev. input_dev (privs ?s' q) = Some idev \<and> dev_ok idev)"
    proof (cases "q \<in> set (wmi_list s)")
      case True
      with assms have old: "q < next_addr s"
        "\<exists>idev. input_dev (privs s q) = Some idev \<and> dev_ok idev"
        by (auto simp: list_inv_def)
      then have "q \<noteq> next_addr s" by simp
      with eff have "privs ?s' q = privs s q" by blast
      with old eff show ?thesis by auto
    next
      case False
      with q eff have "q = next_addr s" "wmi_list ?s' = wmi_list s @ [next_addr s]"
        by auto
      with eff False q show ?thesis by auto
    qed
  qed
qed

lemma probe_valid_inv:
  assumes "privacy_valid s < 0 \<or> wmi_list s \<noteq> []"
  shows "privacy_valid (snd (dell_privacy_wmi_probe env wd s)) < 0 \<or>
         wmi_list (snd (dell_privacy_wmi_probe env wd s)) \<noteq> []"
  using assms
  by (simp add: dell_privacy_wmi_probe_def Let_def get_current_status_def set_input_dev_def
      input_unregister_device_def input_free_device_def ENODEV_def
      split: option.splits acpi_object.splits)

lemma remove_list_inv:
  assumes "list_inv s" "dell_privacy_wmi_remove wd s = Some (r, s')"
  shows "list_inv s'"
proof -
  from assms(2) obtain p idev where p: "drvdata s wd = Some p" "p \<in> set (wmi_list s)"
    "input_dev (privs s p) = Some idev"
    and s': "s' = input_unregister_device p
                   (s\<lparr>wmi_list := remove1 p (wmi_list s), privacy_valid := - ENODEV\<rparr>)"
    by (auto simp: dell_privacy_wmi_remove_def split: option.splits if_splits)
  have sub: "set (wmi_list s') \<subseteq> set (wmi_list s)"
    using p(3) set_remove1_subset [of p "wmi_list s"]
    by (simp add: s' input_unregister_device_def set_input_dev_def)
  have nxt: "next_addr s' = next_addr s"
    using p(3) by (simp add: s' input_unregister_device_def set_input_dev_def)
  have keep: "\<exists>d'. input_dev (privs s' q) = Some d' \<and> dev_ok d'"
    if "input_dev (privs s q) = Some d" "dev_ok d" for q d
    using p(3) that by (auto simp: s' input_unregister_device_def set_input_dev_def dev_ok_def)
  show ?thesis
    unfolding list_inv_def
  proof
    fix q assume "q \<in> set (wmi_list s')"
    with sub have "q \<in> set (wmi_list s)" by blast
    with assms(1) obtain d where d: "q < next_addr s" "input_dev (privs s q) = Some d" "dev_ok d"
      by (auto simp: list_inv_def)
    from d(1) nxt keep [OF d(2,3)]
    show "q < next_addr s' \<and> (\<exists>idev. input_dev (privs s' q) = Some idev \<and> dev_ok idev)"
      by simp
  qed
qed

lemma remove_valid:
  assumes "dell_privacy_wmi_remove wd s = Some (r, s')"
  shows "privacy_valid s' = - ENODEV"
  using assms
  by (auto simp: dell_privacy_wmi_remove_def input_unregister_device_def input_free_device_def
      set_input_dev_def split: option.splits if_splits)

lemma event_frame:
  assumes "dell_privacy_process_event ty cd status s = Some (s', acts)"
  shows "wmi_list s' = wmi_list s" "privacy_valid s' = privacy_valid s"
    "drvdata s' = drvdata s" "next_addr s' = next_addr s"
    "wmi_guid_present s' = wmi_guid_present s"
    "features_present (privs s' q) = features_present (privs s q)"
    "input_dev (privs s' q) = input_dev (privs s q)"
    "wdev (privs s' q) = wdev (privs s q)"
    "q \<notin> set (take 1 (wmi_list s)) \<Longrightarrow> privs s' q = privs s q"
  using assms
  by (auto simp: dell_privacy_process_event_def split: list.splits option.splits if_splits)

lemma event_list_inv:
  assumes "list_inv s" "dell_privacy_process_event ty cd status s = Some (s', acts)"
  shows "list_inv s'"
  using assms(1) event_frame(1,4,7) [OF assms(2)]
  by (simp add: list_inv_def)

lemma query_unchanged: "dell_privacy_valid s = (r, s') \<Longrightarrow> s' = s"
  by (auto simp: dell_privacy_valid_def split: if_splits)

lemma reachable_list_inv: "reachable s \<Longrightarrow> list_inv s"
proof (induction rule: reachable.induct)
  case (reach_init g)
  show ?case by (simp add: list_inv_def init_state_def)
next
  case (reach_probe s env wd r s')
  from probe_list_inv [OF reach_probe.IH, of env wd] reach_probe.hyps(2)
  show ?case by simp
next
  case (reach_remove s wd r s')
  then show ?case by (blast intro: remove_list_inv)
next
  case (reach_event s ty cd status s' acts)
  then show ?case by (blast intro: event_list_inv)
next
  case (reach_query s r s')
  then show ?case by (auto dest: query_unchanged)
qed

lemma reachable_valid_inv: "reachable s \<Longrightarrow> privacy_valid s < 0 \<or> wmi_list s \<noteq> []"
proof (induction rule: reachable.induct)
  case (reach_init g)
  show ?case by (simp add: init_state_def EPROBE_DEFER_def)
next
  case (reach_probe s env wd r s')
  from probe_valid_inv [OF reach_probe.IH, of env wd] reach_probe.hyps(2)
  show ?case by simp
next
  case (reach_remove s wd r s')
  then show ?case by (simp add: remove_valid ENODEV_def)
next
  case (reach_event s ty cd status s' acts)
  then show ?case by (simp add: event_frame(1,2))
next
  case (reach_query s r s')
  then show ?case by (auto dest: query_unchanged)
qed


lemma process_event_by_scancode:
  assumes "reachable s" and "wmi_list s = p # ps"
    and "input_dev (privs s p) = Some idev" and "registered idev"
  shows "dell_privacy_process_event ty cd status s =
           (if take_bit 16 ty = 0x12 \<and> (cd = 1 \<or> cd = 2)
            then Some (s\<lparr>privs := (privs s)(p := (privs s p)\<lparr>last_status := status\<rparr>)\<rparr>,
                       [Report_entry p
                          (the (sparse_keymap_entry_from_scancode installed_keymap
                                  (push_bit 16 ty OR cd))) 1 True])
            else Some (s, []))"
proof -
  from reachable_list_inv [OF assms(1)] assms(2,3,4)
  have idev: "keycode_map idev = installed_keymap" "\<not> freed idev"
    by (auto simp: list_inv_def dev_ok_def)
  have ev: "dell_privacy_process_event ty cd status s =
      (case sparse_keymap_entry_from_scancode installed_keymap (push_bit 16 ty OR cd) of
         None \<Rightarrow> Some (s, [])
       | Some key \<Rightarrow>
           if cd = 1 \<or> cd = 2
           then Some (s\<lparr>privs := (privs s)(p := (privs s p)\<lparr>last_status := status\<rparr>)\<rparr>,
                      [Report_entry p key 1 True])
           else Some (s, []))"
    by (simp add: dell_privacy_process_event_def assms(2,3) idev DELL_PRIVACY_TYPE_AUDIO_def
        DELL_PRIVACY_TYPE_CAMERA_def split: option.splits)
  show ?thesis
  proof (cases "cd = 1 \<or> cd = 2")
    case True
    then show ?thesis
      unfolding ev lookup_installed
      using scancode_audio [of ty] scancode_camera [of ty]
      by (auto simp: scancode_cross)
  next
    case False
    then show ?thesis unfolding ev by (simp split: option.splits)
  qed
qed

lemma first_of_probed_state:
  "wmi_list probed_state = [0]"
  "input_dev (privs probed_state 0) =
     Some \<lparr>keycode_map = installed_keymap, dev_name = ''Dell Privacy Driver'',
           bustype = BUS_HOST, registered = True, freed = False\<rparr>"
  by (simp_all add: probed_state_eq)

lemma process_event_wide_type:
  "dell_privacy_process_event 0x10012 1 7 probed_state =
     Some (probed_state\<lparr>privs := (privs probed_state)(0 := (privs probed_state 0)\<lparr>last_status := 7\<rparr>)\<rparr>,
           [Report_entry 0 \<lparr>ke_type = KE_KEY, ke_code = 0x120001, keycode = KEY_MICMUTE\<rparr> 1 True])"
proof -
  have t: "take_bit 16 (0x10012 :: u32) = 0x12" by (simp add: take_bit_eq_mod)
  show ?thesis
    unfolding process_event_by_scancode [OF reachable_probed_state first_of_probed_state, simplified]
    by (simp add: t lookup_installed)
qed

text \<open>
  After a probe whose status query failed the instance is still first on the list,
  its input device unregistered and freed: the state is reachable, and an event
  delivered there goes through the dangling pointer.
\<close>

lemma failed_probe_state:
  "reachable (snd (dell_privacy_wmi_probe query_fail_env 0 (init_state True)))"
  "wmi_list (snd (dell_privacy_wmi_probe query_fail_env 0 (init_state True))) = [0]"
  "input_dev (privs (snd (dell_privacy_wmi_probe query_fail_env 0 (init_state True))) 0) =
     Some \<lparr>keycode_map = installed_keymap, dev_name = ''Dell Privacy Driver'',
           bustype = BUS_HOST, registered = False, freed = True\<rparr>"
proof -
  show "reachable (snd (dell_privacy_wmi_probe query_fail_env 0 (init_state True)))"
    by (rule reach_probe [OF reach_init surjective_pairing])
  show "wmi_list (snd (dell_privacy_wmi_probe query_fail_env 0 (init_state True))) = [0]"
    by (simp add: dell_privacy_wmi_probe_def query_fail_env_def good_env_def Let_def
        set_input_dev_def get_current_status_def input_unregister_device_def
        input_free_device_def init_state_def EIO_def)
  show "input_dev (privs (snd (dell_privacy_wmi_probe query_fail_env 0 (init_state True))) 0) =
     Some \<lparr>keycode_map = installed_keymap, dev_name = ''Dell Privacy Driver'',
           bustype = BUS_HOST, registered = False, freed = True\<rparr>"
    by (simp add: dell_privacy_wmi_probe_def query_fail_env_def good_env_def Let_def
        set_input_dev_def get_current_status_def input_unregister_device_def
        input_free_device_def init_state_def EIO_def zero_input_device_def installed_keymap_def)
qed

lemma process_event_after_failed_probe:
  "dell_privacy_process_event ty cd status
     (snd (dell_privacy_wmi_probe query_fail_env 0 (init_state True))) = None"
  by (simp add: dell_privacy_process_event_def failed_probe_state)

text \<open>What a probe leaves in \<^verbatim>\<open>privacy_valid\<close>, by how far it got.\<close>

lemma probe_guid: "wmi_guid_present (snd (dell_privacy_wmi_probe env wd s)) = wmi_guid_present s"
  by (simp add: dell_privacy_wmi_probe_def Let_def get_current_status_def set_input_dev_def
      input_unregister_device_def input_free_device_def split: option.splits acpi_object.splits)

lemma probe_all_ok_valid:
  "probe_all_ok env \<Longrightarrow>
     fst (dell_privacy_wmi_probe env wd s) = 0 \<and>
     privacy_valid (snd (dell_privacy_wmi_probe env wd s)) = 0"
  by (auto simp: probe_all_ok_def dell_privacy_wmi_probe_def Let_def get_current_status_def
      set_input_dev_def split: option.splits acpi_object.splits)

lemma probe_late_failure_valid:
  "probe_early_ok env \<Longrightarrow> \<not> probe_all_ok env \<Longrightarrow>
     privacy_valid (snd (dell_privacy_wmi_probe env wd s)) = - ENODEV"
  by (auto simp: probe_all_ok_def probe_early_ok_def dell_privacy_wmi_probe_def Let_def
      get_current_status_def set_input_dev_def input_unregister_device_def input_free_device_def EIO_def EINVAL_def
      split: option.splits acpi_object.splits)

lemma probe_early_failure_valid:
  "\<not> probe_early_ok env \<Longrightarrow>
     fst (dell_privacy_wmi_probe env wd s) \<noteq> 0 \<and>
     privacy_valid (snd (dell_privacy_wmi_probe env wd s)) = privacy_valid s \<and>
     wmi_list (snd (dell_privacy_wmi_probe env wd s)) = wmi_list s"
  by (auto simp: probe_early_ok_def dell_privacy_wmi_probe_def Let_def set_input_dev_def
      input_free_device_def ENOMEM_def)

section \<open>The validity query is a cached read\<close>

text \<open>
  Claim C9. \<^verbatim>\<open>dell_privacy_valid\<close> writes nothing: the state it returns is the state it
  was called in, and any number of calls in a row, with nothing in between, all
  return the value of the first.
\<close>

theorem query_validity_pure:
  "snd (dell_privacy_valid s) = s \<and>
   query_n n s = (replicate n (fst (dell_privacy_valid s)), s)"
proof
  show unchanged: "snd (dell_privacy_valid s) = s"
    by (simp add: dell_privacy_valid_def)
  show "query_n n s = (replicate n (fst (dell_privacy_valid s)), s)"
  proof (induction n)
    case 0
    show ?case by simp
  next
    case (Suc n)
    obtain r where r: "dell_privacy_valid s = (r, s)"
      using unchanged by (metis prod.collapse)
    with Suc show ?case by simp
  qed
qed

section \<open>The LED callback\<close>

text \<open>
  Claim C2, as stated, says that setting the indicator off issues no acknowledgment
  call. \<^verbatim>\<open>dell_privacy_micmute_led_set\<close> never reads its brightness argument: with
  brightness 0 and a working embedded controller the \<^verbatim>\<open>ECAK\<close> method is evaluated all
  the same.
\<close>

theorem led_set_off_counterexample:
  "snd (dell_privacy_micmute_led_set ec_ok_env 0) \<noteq> []"
  by (simp add: dell_privacy_micmute_led_set_def ec_ok_env_def)

text \<open>
  Claim C2, amended. When the embedded controller's handle exists, exposes \<^verbatim>\<open>ECAK\<close>
  and evaluates it successfully, the callback returns 0 and issues exactly one
  acknowledgment call, for every brightness, on or off.
\<close>

theorem led_set_acks_any_brightness:
  "ec_get_handle env = Some h \<Longrightarrow> acpi_has_method env h ''ECAK'' \<Longrightarrow>
   acpi_evaluate_object env h ''ECAK'' = 0 \<Longrightarrow>
   dell_privacy_micmute_led_set env brightness = (0, [Evaluate h ''ECAK''])"
  by (simp add: dell_privacy_micmute_led_set_def)

theorem led_set_acks_any_brightness_witness:
  "ec_get_handle ec_ok_env = Some 0 \<and> acpi_has_method ec_ok_env 0 ''ECAK'' \<and>
   acpi_evaluate_object ec_ok_env 0 ''ECAK'' = 0 \<and>
   dell_privacy_micmute_led_set ec_ok_env 1 = (0, [Evaluate 0 ''ECAK'']) \<and>
   dell_privacy_micmute_led_set ec_ok_env 0 = (0, [Evaluate 0 ''ECAK''])"
proof -
  have h: "ec_get_handle ec_ok_env = Some 0" "acpi_has_method ec_ok_env 0 ''ECAK''"
    "acpi_evaluate_object ec_ok_env 0 ''ECAK'' = 0"
    by (simp_all add: ec_ok_env_def)
  show ?thesis
    using h led_set_acks_any_brightness [OF h, of 1] led_set_acks_any_brightness [OF h, of 0]
    by simp
qed

section \<open>The status query\<close>

text \<open>
  Claim C5. For a device that has its instance data, \<^verbatim>\<open>get_current_status\<close> returns
  \<^verbatim>\<open>-EIO\<close> when the block query yields a null pointer or an object that is not a buffer,
  and \<^verbatim>\<open>-EINVAL\<close> when the buffer's length is not 8; each time \<^verbatim>\<open>privacy_valid\<close> is set
  to the very code returned. With a buffer of length 8 it returns 0, sets
  \<^verbatim>\<open>privacy_valid\<close> to 0 and stores the buffer's two words in \<^verbatim>\<open>features_present\<close> and
  \<^verbatim>\<open>last_status\<close>.
\<close>

theorem status_query_results:
  assumes "drvdata s wd = Some p"
  shows "fst (get_current_status None wd s) = - EIO \<and>
         privacy_valid (snd (get_current_status None wd s)) = - EIO \<and>
         (\<not> is_acpi_buffer ob \<longrightarrow>
            fst (get_current_status (Some ob) wd s) = - EIO \<and>
            privacy_valid (snd (get_current_status (Some ob) wd s)) = - EIO) \<and>
         (length bs \<noteq> 8 \<longrightarrow>
            fst (get_current_status (Some (Acpi_Buffer bs)) wd s) = - EINVAL \<and>
            privacy_valid (snd (get_current_status (Some (Acpi_Buffer bs)) wd s)) = - EINVAL) \<and>
         (length bs = 8 \<longrightarrow>
            fst (get_current_status (Some (Acpi_Buffer bs)) wd s) = 0 \<and>
            privacy_valid (snd (get_current_status (Some (Acpi_Buffer bs)) wd s)) = 0 \<and>
            features_present (privs (snd (get_current_status (Some (Acpi_Buffer bs)) wd s)) p)
              = buffer_u32 bs 0 \<and>
            last_status (privs (snd (get_current_status (Some (Acpi_Buffer bs)) wd s)) p)
              = buffer_u32 bs 1)"
  using assms
  by (cases ob) (simp_all add: get_current_status_def is_acpi_buffer_def)

theorem status_query_results_witness:
  "drvdata probed_state 0 = Some 0 \<and>
   fst (get_current_status None 0 probed_state) = - EIO \<and>
   privacy_valid (snd (get_current_status None 0 probed_state)) = - EIO \<and>
   \<not> is_acpi_buffer (Acpi_Integer 7) \<and>
   fst (get_current_status (Some (Acpi_Integer 7)) 0 probed_state) = - EIO \<and>
   length [1, 2, 3 :: u8] \<noteq> 8 \<and>
   fst (get_current_status (Some (Acpi_Buffer [1, 2, 3])) 0 probed_state) = - EINVAL \<and>
   privacy_valid (snd (get_current_status (Some (Acpi_Buffer [1, 2, 3])) 0 probed_state)) = - EINVAL \<and>
   length (u32_bytes 5 @ u32_bytes 4) = 8 \<and>
   fst (get_current_status (Some (Acpi_Buffer (u32_bytes 5 @ u32_bytes 4))) 0 probed_state) = 0 \<and>
   privacy_valid
     (snd (get_current_status (Some (Acpi_Buffer (u32_bytes 5 @ u32_bytes 4))) 0 probed_state)) = 0 \<and>
   features_present (privs
     (snd (get_current_status (Some (Acpi_Buffer (u32_bytes 5 @ u32_bytes 4))) 0 probed_state)) 0) = 5 \<and>
   last_status (privs
     (snd (get_current_status (Some (Acpi_Buffer (u32_bytes 5 @ u32_bytes 4))) 0 probed_state)) 0) = 4"
proof -
  have h: "drvdata probed_state 0 = Some 0"
    by (simp add: probed_state_eq)
  show ?thesis
    using h status_query_results [OF h, of "Acpi_Integer 7" "[1, 2, 3]"]
      status_query_results [OF h, of "Acpi_Integer 7" "u32_bytes 5 @ u32_bytes 4"]
    by (simp add: is_acpi_buffer_def length_u32_bytes buffer_u32_0 buffer_u32_Suc0)
qed

text \<open>
  Claim C6. When the buffer returned by the block query has a length other than 8,
  \<^verbatim>\<open>get_current_status\<close> returns \<^verbatim>\<open>-EINVAL\<close> and leaves the whole store of instances
  as it was, so \<^verbatim>\<open>features_present\<close> and \<^verbatim>\<open>last_status\<close> keep their prior values. In a
  probe they were never set: the instance is freshly zero-allocated and both fields
  read 0 afterwards.
\<close>

theorem status_query_bad_length:
  assumes "length bs \<noteq> 8"
  shows "fst (get_current_status (Some (Acpi_Buffer bs)) wd s) = - EINVAL \<and>
         privs (snd (get_current_status (Some (Acpi_Buffer bs)) wd s)) = privs s \<and>
         (probe_early_ok env \<and> input_register_device_ret env = 0 \<and>
          wmidev_block_query env = Some (Acpi_Buffer bs) \<longrightarrow>
            features_present (privs (snd (dell_privacy_wmi_probe env wd s)) (next_addr s)) = 0 \<and>
            last_status (privs (snd (dell_privacy_wmi_probe env wd s)) (next_addr s)) = 0)"
proof (intro conjI impI)
  show "fst (get_current_status (Some (Acpi_Buffer bs)) wd s) = - EINVAL"
    using assms by (simp add: get_current_status_def split: option.splits)
  show "privs (snd (get_current_status (Some (Acpi_Buffer bs)) wd s)) = privs s"
    using assms by (simp add: get_current_status_def split: option.splits)
next
  assume env: "probe_early_ok env \<and> input_register_device_ret env = 0 \<and>
          wmidev_block_query env = Some (Acpi_Buffer bs)"
  then show "features_present (privs (snd (dell_privacy_wmi_probe env wd s)) (next_addr s)) = 0"
    using assms
    by (simp add: dell_privacy_wmi_probe_def probe_early_ok_def Let_def set_input_dev_def
        get_current_status_def input_unregister_device_def input_free_device_def zero_priv_def)
  from env show "last_status (privs (snd (dell_privacy_wmi_probe env wd s)) (next_addr s)) = 0"
    using assms
    by (simp add: dell_privacy_wmi_probe_def probe_early_ok_def Let_def set_input_dev_def
        get_current_status_def input_unregister_device_def input_free_device_def zero_priv_def)
qed

theorem status_query_bad_length_witness:
  "length [1, 2, 3 :: u8] \<noteq> 8 \<and>
   fst (get_current_status (Some (Acpi_Buffer [1, 2, 3])) 0 probed_state) = - EINVAL \<and>
   features_present (privs (snd (get_current_status (Some (Acpi_Buffer [1, 2, 3])) 0 probed_state)) 0) = 3 \<and>
   last_status (privs (snd (get_current_status (Some (Acpi_Buffer [1, 2, 3])) 0 probed_state)) 0) = 1 \<and>
   probe_early_ok ((good_env 0 0)\<lparr>wmidev_block_query := Some (Acpi_Buffer [1, 2, 3])\<rparr>) \<and>
   features_present (privs (snd (dell_privacy_wmi_probe
      ((good_env 0 0)\<lparr>wmidev_block_query := Some (Acpi_Buffer [1, 2, 3])\<rparr>) 0 (init_state True))) 0) = 0 \<and>
   last_status (privs (snd (dell_privacy_wmi_probe
      ((good_env 0 0)\<lparr>wmidev_block_query := Some (Acpi_Buffer [1, 2, 3])\<rparr>) 0 (init_state True))) 0) = 0"
proof -
  have h: "length [1, 2, 3 :: u8] \<noteq> 8" by simp
  have n: "next_addr (init_state True) = 0" by (simp add: init_state_def)
  show ?thesis
    using h status_query_bad_length [OF h, where wd = 0 and s = probed_state]
      status_query_bad_length [OF h, where env = "(good_env 0 0)\<lparr>wmidev_block_query := Some (Acpi_Buffer [1, 2, 3])\<rparr>"
        and wd = 0 and s = "init_state True"]
    by (simp add: probed_state_eq good_env_def probe_early_ok_def n)
qed

text \<open>
  Claim C8. For every pair (features, status), the status query answered with the
  eight bytes encoding the pair succeeds and stores exactly these two values; the
  attributes \<^verbatim>\<open>devices_supported\<close> and \<^verbatim>\<open>current_state\<close> then render them as
  hexadecimal text followed by a newline, and that text reads back as the same
  numbers. (By \<open>buffer_bytes_roundtrip\<close> every buffer of length 8 is such an encoding.)
\<close>

theorem status_roundtrip:
  assumes "drvdata s wd = Some p"
  shows "fst (get_current_status (Some (Acpi_Buffer (u32_bytes f @ u32_bytes st))) wd s) = 0 \<and>
         (let s' = snd (get_current_status (Some (Acpi_Buffer (u32_bytes f @ u32_bytes st))) wd s) in
            features_present (privs s' p) = f \<and>
            last_status (privs s' p) = st \<and>
            devices_supported_show wd s' =
              Some (int (length (hex_digits (unat f))) + 1, hex_digits (unat f) @ [CHR 0x0A]) \<and>
            current_state_show wd s' =
              Some (int (length (hex_digits (unat st))) + 1, hex_digits (unat st) @ [CHR 0x0A])) \<and>
         hex_parse (hex_digits (unat f)) = unat f \<and>
         hex_parse (hex_digits (unat st)) = unat st"
  using assms
  by (simp add: get_current_status_def length_u32_bytes buffer_u32_0 buffer_u32_Suc0 Let_def
      devices_supported_show_def current_state_show_def sysfs_emit_x_def hex_parse_digits)

theorem status_roundtrip_witness:
  "drvdata probed_state 0 = Some 0 \<and>
   (let s' = snd (get_current_status (Some (Acpi_Buffer (u32_bytes 0x2f @ u32_bytes 0x3))) 0 probed_state) in
      features_present (privs s' 0) = 0x2f \<and> last_status (privs s' 0) = 3 \<and>
      devices_supported_show 0 s' = Some (3, ''2f'' @ [CHR 0x0A]) \<and>
      current_state_show 0 s' = Some (2, ''3'' @ [CHR 0x0A]))"
proof -
  have h: "drvdata probed_state 0 = Some 0"
    by (simp add: probed_state_eq)
  have d: "hex_digits 47 = ''2f''" "hex_digits 3 = ''3''"
    by (simp_all add: hex_digits.simps hex_asc_def)
  show ?thesis
    using h status_roundtrip [OF h, of "0x2f" 3] d
    by (simp add: Let_def)
qed

section \<open>The event relay\<close>





section \<open>The validity gate over the driver's life\<close>

text \<open>
  Claim C7. In every reachable state, if the registration list is empty then
  \<^verbatim>\<open>privacy_valid\<close> is a negative error code, and so is the value
  \<^verbatim>\<open>dell_privacy_valid\<close> returns: the gate is not valid.
\<close>

theorem no_instance_invalid:
  assumes "reachable s" and "wmi_list s = []"
  shows "privacy_valid s < 0 \<and> fst (dell_privacy_valid s) < 0"
  using reachable_valid_inv [OF assms(1)] assms(2)
  by (simp add: dell_privacy_valid_def ENODEV_def)

theorem no_instance_invalid_witness:
  "reachable removed_state \<and> wmi_list removed_state = [] \<and>
   privacy_valid removed_state = - 19 \<and> fst (dell_privacy_valid removed_state) = - 19"
proof -
  have l: "wmi_list removed_state = []"
    by (simp add: removed_state_def remove_probed_state)
  have v: "privacy_valid removed_state = - 19"
    by (simp add: removed_state_def remove_probed_state ENODEV_def)
  have g: "wmi_guid_present removed_state"
    by (simp add: removed_state_def remove_probed_state) (simp add: probed_state_eq)
  show ?thesis
    using reachable_removed_state l v g no_instance_invalid [OF reachable_removed_state l]
    by (simp add: dell_privacy_valid_def)
qed

text \<open>
  Claim C4, as stated, says that the validity query returns \<^verbatim>\<open>-ENODEV\<close> (not found)
  before any registration. With the GUID present the query returns the initial value
  of \<^verbatim>\<open>privacy_valid\<close>, which is \<^verbatim>\<open>-EPROBE_DEFER\<close>.
\<close>

theorem query_before_probe_counterexample:
  "fst (dell_privacy_valid (init_state True)) \<noteq> - ENODEV"
  by (simp add: dell_privacy_valid_def init_state_def ENODEV_def EPROBE_DEFER_def)

text \<open>
  Claim C4, amended. \<^verbatim>\<open>dell_privacy_valid\<close> returns \<^verbatim>\<open>-ENODEV\<close> when the GUID is absent.
  With the GUID present it returns \<^verbatim>\<open>-EPROBE_DEFER\<close> before any registration, 0 after
  a probe whose every step succeeded, \<^verbatim>\<open>-ENODEV\<close> after a probe that failed at or
  after the registration of the input device and after a remove, and the value cached
  before after a probe that failed earlier (such a probe records nothing).
\<close>

theorem query_validity_cases:
  "(\<not> wmi_guid_present s \<longrightarrow> fst (dell_privacy_valid s) = - ENODEV) \<and>
   fst (dell_privacy_valid (init_state True)) = - EPROBE_DEFER \<and>
   (wmi_guid_present s \<longrightarrow>
      (probe_all_ok env \<longrightarrow>
         fst (dell_privacy_wmi_probe env wd s) = 0 \<and>
         fst (dell_privacy_valid (snd (dell_privacy_wmi_probe env wd s))) = 0) \<and>
      (probe_early_ok env \<and> \<not> probe_all_ok env \<longrightarrow>
         fst (dell_privacy_valid (snd (dell_privacy_wmi_probe env wd s))) = - ENODEV) \<and>
      (\<not> probe_early_ok env \<longrightarrow>
         fst (dell_privacy_valid (snd (dell_privacy_wmi_probe env wd s))) = privacy_valid s) \<and>
      (\<forall>r s'. dell_privacy_wmi_remove wd s = Some (r, s') \<longrightarrow>
         fst (dell_privacy_valid s') = - ENODEV))"
proof -
  have rm: "fst (dell_privacy_valid s') = - ENODEV"
    if "dell_privacy_wmi_remove wd s = Some (r, s')" for r s'
    using that
    by (auto simp: dell_privacy_wmi_remove_def dell_privacy_valid_def
        input_unregister_device_def input_free_device_def set_input_dev_def split: option.splits if_splits)
  show ?thesis
    using probe_all_ok_valid [of env wd s] probe_late_failure_valid [of env wd s]
      probe_early_failure_valid [of env wd s] probe_guid [of env wd s] rm
    by (auto simp: dell_privacy_valid_def init_state_def)
qed

theorem query_validity_cases_witness:
  "\<not> wmi_guid_present (init_state False) \<and>
   fst (dell_privacy_valid (init_state False)) = - ENODEV \<and>
   wmi_guid_present (init_state True) \<and> probe_all_ok (good_env 3 1) \<and>
   fst (dell_privacy_valid probed_state) = 0 \<and>
   probe_early_ok query_fail_env \<and> \<not> probe_all_ok query_fail_env \<and>
   fst (dell_privacy_valid (snd (dell_privacy_wmi_probe query_fail_env 0 (init_state True))))
     = - ENODEV \<and>
   \<not> probe_early_ok ((good_env 3 1)\<lparr>devm_kzalloc_ok := False\<rparr>) \<and>
   fst (dell_privacy_valid (snd (dell_privacy_wmi_probe
          ((good_env 3 1)\<lparr>devm_kzalloc_ok := False\<rparr>) 0 (init_state True)))) = - EPROBE_DEFER \<and>
   wmi_guid_present probed_state \<and>
   dell_privacy_wmi_remove 0 probed_state = Some (0, removed_state) \<and>
   fst (dell_privacy_valid removed_state) = - ENODEV"
proof -
  have g: "\<not> wmi_guid_present (init_state False)" "wmi_guid_present (init_state True)"
    "wmi_guid_present probed_state" "privacy_valid (init_state True) = - EPROBE_DEFER"
    by (simp_all add: init_state_def probed_state_eq)
  have e: "probe_all_ok (good_env 3 1)" "probe_early_ok query_fail_env"
    "\<not> probe_all_ok query_fail_env"
    "\<not> probe_early_ok ((good_env 3 1)\<lparr>devm_kzalloc_ok := False\<rparr>)"
    by (simp_all add: probe_all_ok_def probe_early_ok_def good_env_def query_fail_env_def
        length_u32_bytes)
  have r: "dell_privacy_wmi_remove 0 probed_state = Some (0, removed_state)"
    by (simp add: removed_state_def remove_probed_state)
  show ?thesis
    using g e r
      query_validity_cases [of "init_state False"]
      query_validity_cases [of "init_state True" "good_env 3 1" 0]
      query_validity_cases [of "init_state True" query_fail_env 0]
      query_validity_cases [of "init_state True" "(good_env 3 1)\<lparr>devm_kzalloc_ok := False\<rparr>" 0]
      query_validity_cases [of probed_state _ 0]
    by (simp add: probed_state_def)
qed

section \<open>A probe whose status query fails\<close>

text \<open>
  Claim C3 at a concrete input: a fresh driver, every step of the probe succeeding
  up to the status query, and the block query returning a null pointer. The probe
  function returns 0, the instance stays on the registration list, and
  \<^verbatim>\<open>privacy_valid\<close> is \<^verbatim>\<open>-ENODEV\<close>.
\<close>

theorem probe_query_failure_evaluated:
  "\<not> probe_all_ok query_fail_env \<and>
   fst (dell_privacy_wmi_probe query_fail_env 0 (init_state True)) = 0 \<and>
   wmi_list (snd (dell_privacy_wmi_probe query_fail_env 0 (init_state True))) = [0] \<and>
   privacy_valid (snd (dell_privacy_wmi_probe query_fail_env 0 (init_state True))) = - ENODEV"
  by (simp add: dell_privacy_wmi_probe_def query_fail_env_def good_env_def Let_def
      set_input_dev_def get_current_status_def input_unregister_device_def input_free_device_def init_state_def
      probe_all_ok_def EIO_def)

end
